theory Spec2Isabelle
  imports Main
begin

section \<open>Data model\<close>

text \<open>
  The store of \<^verbatim>\<open>main.go\<close> is a Go \<^verbatim>\<open>map[string]string\<close> together with a
  dirty flag, guarded by a reader/writer lock. Every method takes the lock for its whole
  body, so each method is one atomic step on the state and the lock itself is not
  modelled. The map is the one allocated by \<^verbatim>\<open>make\<close> in \<^verbatim>\<open>NewKeyValueStore\<close>;
  it is modelled as a partial function from keys to values.
\<close>

type_synonym recordset = "string \<rightharpoonup> string"

record KeyValueStore =
  store :: recordset
  dirty :: bool

text \<open>The variant in \<^verbatim>\<open>part_000\<close> has the same map and no dirty flag.\<close>

record KeyValueStore0 =
  store0 :: recordset

type_synonym path = string
type_synonym bytes = string

definition dataFile :: path where
  "dataFile = ''kvstore.json''"

text \<open>
  Errors are values. \<open>ErrNotExist\<close> is the error for which \<^verbatim>\<open>os.IsNotExist\<close>
  holds; every other failure of a system call carries its error number, and a failure
  of the JSON decoder carries its message.
\<close>

datatype errno = EACCES | EIO | ENOSPC | EMFILE | EROFS

datatype error = ErrNotExist | ErrOS errno | ErrJSON string

definition os_IsNotExist :: "error \<Rightarrow> bool" where
  "os_IsNotExist err = (err = ErrNotExist)"

record SetRequest =
  Key :: string
  Value :: string

text \<open>
  The package \<^verbatim>\<open>encoding/json\<close> is not part of the repository; the three calls
  made into it are parameters of the model. \<open>encode_map m\<close> is the text that
  \<^verbatim>\<open>Encode(kvs.store)\<close> produces for the map \<open>m\<close>; \<open>decode_map b m\<close> is the
  outcome of \<^verbatim>\<open>Decode(&kvs.store)\<close> on the text \<open>b\<close> when the map holds \<open>m\<close>
  (an error, if any, and the map afterwards); \<open>unmarshal_request b\<close> is the outcome of
  \<^verbatim>\<open>json.Unmarshal(body, &req)\<close> on a zero \<^verbatim>\<open>SetRequest\<close>. The decoder is
  taken to leave the map allocated: the JSON literal \<^verbatim>\<open>null\<close>, which would reset
  a Go map to nil, is outside this model.
\<close>

record json_lib =
  encode_map :: "recordset \<Rightarrow> bytes"
  decode_map :: "bytes \<Rightarrow> recordset \<Rightarrow> error option \<times> recordset"
  unmarshal_request :: "bytes \<Rightarrow> error + SetRequest"

section \<open>Store\<close>

definition Set :: "string \<Rightarrow> string \<Rightarrow> KeyValueStore \<Rightarrow> KeyValueStore" where
  "Set key val kvs = kvs\<lparr>store := (store kvs)(key \<mapsto> val), dirty := True\<rparr>"

text \<open>A lookup of an absent key yields the zero value of the value type, the empty string.\<close>

definition Get :: "string \<Rightarrow> KeyValueStore \<Rightarrow> string \<times> bool" where
  "Get key kvs = (case store kvs key of Some v \<Rightarrow> (v, True) | None \<Rightarrow> ('''', False))"

definition Count :: "KeyValueStore \<Rightarrow> int" where
  "Count kvs = int (card (dom (store kvs)))"

definition Set0 :: "string \<Rightarrow> string \<Rightarrow> KeyValueStore0 \<Rightarrow> KeyValueStore0" where
  "Set0 key val kvs = kvs\<lparr>store0 := (store0 kvs)(key \<mapsto> val)\<rparr>"

definition Get0 :: "string \<Rightarrow> KeyValueStore0 \<Rightarrow> string \<times> bool" where
  "Get0 key kvs = (case store0 kvs key of Some v \<Rightarrow> (v, True) | None \<Rightarrow> ('''', False))"

definition Count0 :: "KeyValueStore0 \<Rightarrow> int" where
  "Count0 kvs = int (card (dom (store0 kvs)))"

text \<open>
  A caller's view of the three store methods: a call, and what it returns. A sequence of
  calls is run from left to right; the returned values are collected in order.
\<close>

datatype call = CallSet string string | CallGet string | CallCount

datatype ret = RetUnit | RetGet string bool | RetCount int

fun invoke :: "call \<Rightarrow> KeyValueStore \<Rightarrow> ret \<times> KeyValueStore" where
  "invoke (CallSet k v) kvs = (RetUnit, Set k v kvs)"
| "invoke (CallGet k) kvs = (case Get k kvs of (v, ok) \<Rightarrow> (RetGet v ok, kvs))"
| "invoke CallCount kvs = (RetCount (Count kvs), kvs)"

fun invoke0 :: "call \<Rightarrow> KeyValueStore0 \<Rightarrow> ret \<times> KeyValueStore0" where
  "invoke0 (CallSet k v) kvs = (RetUnit, Set0 k v kvs)"
| "invoke0 (CallGet k) kvs = (case Get0 k kvs of (v, ok) \<Rightarrow> (RetGet v ok, kvs))"
| "invoke0 CallCount kvs = (RetCount (Count0 kvs), kvs)"

fun run :: "call list \<Rightarrow> KeyValueStore \<Rightarrow> ret list \<times> KeyValueStore" where
  "run [] kvs = ([], kvs)"
| "run (c # cs) kvs =
     (case invoke c kvs of (r, kvs') \<Rightarrow>
        (case run cs kvs' of (rs, kvs'') \<Rightarrow> (r # rs, kvs'')))"

fun run0 :: "call list \<Rightarrow> KeyValueStore0 \<Rightarrow> ret list \<times> KeyValueStore0" where
  "run0 [] kvs = ([], kvs)"
| "run0 (c # cs) kvs =
     (case invoke0 c kvs of (r, kvs') \<Rightarrow>
        (case run0 cs kvs' of (rs, kvs'') \<Rightarrow> (r # rs, kvs'')))"


section \<open>Persistence\<close>

text \<open>
  The disk is a partial function from paths to file contents. A system call either
  succeeds or fails with an error number; which of the two happens is decided by the
  environment and is an argument of the model (\<open>None\<close>: the call succeeds). A failing
  write may have put a prefix of the data into the file.
\<close>

type_synonym filesystem = "path \<rightharpoonup> bytes"

datatype syscall = Create path | Write path | Sync path | Close path | Rename path path

record save_faults =
  create_fault :: "errno option"
  write_fault :: "(errno \<times> nat) option"
  sync_fault :: "errno option"
  close_fault :: "errno option"
  rename_fault :: "errno option"

record load_faults =
  open_fault :: "errno option"
  read_fault :: "errno option"

definition no_save_faults :: save_faults where
  "no_save_faults = \<lparr>create_fault = None, write_fault = None, sync_fault = None,
     close_fault = None, rename_fault = None\<rparr>"

definition no_load_faults :: load_faults where
  "no_load_faults = \<lparr>open_fault = None, read_fault = None\<rparr>"

text \<open>\<^verbatim>\<open>os.Create\<close> creates the file or truncates it.\<close>

definition os_Create :: "errno option \<Rightarrow> path \<Rightarrow> filesystem \<Rightarrow> error option \<times> filesystem" where
  "os_Create fault p fs =
     (case fault of
        Some e \<Rightarrow> (Some (ErrOS e), fs)
      | None \<Rightarrow> (None, fs(p \<mapsto> [])))"

text \<open>
  \<^verbatim>\<open>json.NewEncoder(file).Encode(m)\<close> on a file just created: the encoded text is
  written to the file; on a failure after \<open>n\<close> bytes the file holds those bytes.
\<close>

definition json_Encode ::
  "json_lib \<Rightarrow> (errno \<times> nat) option \<Rightarrow> path \<Rightarrow> recordset \<Rightarrow> filesystem
     \<Rightarrow> error option \<times> filesystem" where
  "json_Encode lib fault p m fs =
     (case fault of
        Some (e, n) \<Rightarrow> (Some (ErrOS e), fs(p \<mapsto> take n (encode_map lib m)))
      | None \<Rightarrow> (None, fs(p \<mapsto> encode_map lib m)))"

definition file_Sync :: "errno option \<Rightarrow> filesystem \<Rightarrow> error option \<times> filesystem" where
  "file_Sync fault fs = (map_option ErrOS fault, fs)"

definition file_Close :: "errno option \<Rightarrow> filesystem \<Rightarrow> error option \<times> filesystem" where
  "file_Close fault fs = (map_option ErrOS fault, fs)"

text \<open>\<^verbatim>\<open>os.Rename\<close> replaces the target in one step, or fails and changes nothing.\<close>

definition os_Rename ::
  "errno option \<Rightarrow> path \<Rightarrow> path \<Rightarrow> filesystem \<Rightarrow> error option \<times> filesystem" where
  "os_Rename fault oldpath newpath fs =
     (case fault of
        Some e \<Rightarrow> (Some (ErrOS e), fs)
      | None \<Rightarrow>
          (case fs oldpath of
             None \<Rightarrow> (Some ErrNotExist, fs)
           | Some b \<Rightarrow> (None, (fs(oldpath := None))(newpath \<mapsto> b))))"

definition os_Open :: "errno option \<Rightarrow> path \<Rightarrow> filesystem \<Rightarrow> error + bytes" where
  "os_Open fault p fs =
     (case fault of
        Some e \<Rightarrow> Inl (ErrOS e)
      | None \<Rightarrow> (case fs p of None \<Rightarrow> Inl ErrNotExist | Some b \<Rightarrow> Inr b))"

text \<open>
  \<^verbatim>\<open>json.NewDecoder(file).Decode(&m)\<close>: the decoder reads the file first, and a read
  error is returned before anything is stored.
\<close>

definition json_Decode ::
  "json_lib \<Rightarrow> errno option \<Rightarrow> bytes \<Rightarrow> recordset \<Rightarrow> error option \<times> recordset" where
  "json_Decode lib fault contents m =
     (case fault of
        Some e \<Rightarrow> (Some (ErrOS e), m)
      | None \<Rightarrow> decode_map lib contents m)"

definition loadFromDisk ::
  "json_lib \<Rightarrow> load_faults \<Rightarrow> KeyValueStore \<Rightarrow> filesystem \<Rightarrow> error option \<times> KeyValueStore" where
  "loadFromDisk lib f kvs fs =
     (case os_Open (open_fault f) dataFile fs of
        Inl err \<Rightarrow> if os_IsNotExist err then (None, kvs) else (Some err, kvs)
      | Inr contents \<Rightarrow>
          (case json_Decode lib (read_fault f) contents (store kvs) of
             (err, m) \<Rightarrow> (err, kvs\<lparr>store := m\<rparr>)))"

definition NewKeyValueStore ::
  "json_lib \<Rightarrow> load_faults \<Rightarrow> filesystem \<Rightarrow> error + KeyValueStore" where
  "NewKeyValueStore lib f fs =
     (let kvs = \<lparr>store = Map.empty, dirty = False\<rparr>
      in case loadFromDisk lib f kvs fs of
           (Some err, _) \<Rightarrow> Inl err
         | (None, kvs') \<Rightarrow> Inr kvs')"

text \<open>
  The outcome of one \<open>saveToDisk\<close>: the error returned (if any), the store and the
  disk afterwards, and the system calls made, each with the disk as that call left it.
  With no call made, no disk I/O took place. On the two paths where the source closes
  the file and drops the result of \<^verbatim>\<open>Close\<close>, the call is recorded and its result
  is not used.
\<close>

text \<open>The path of the temporary file, \<^verbatim>\<open>tempFile\<close> in \<^verbatim>\<open>saveToDisk\<close>.\<close>

definition tempFile :: path where
  "tempFile = dataFile @ ''.tmp''"

record flush =
  flush_err :: "error option"
  kvs_after :: KeyValueStore
  fs_after :: filesystem
  calls :: "(syscall \<times> filesystem) list"

definition saveToDisk ::
  "json_lib \<Rightarrow> save_faults \<Rightarrow> KeyValueStore \<Rightarrow> filesystem \<Rightarrow> flush" where
  "saveToDisk lib f kvs fs =
     (if \<not> dirty kvs
      then \<lparr>flush_err = None, kvs_after = kvs, fs_after = fs, calls = []\<rparr>
      else
        let (err1, fs1) = os_Create (create_fault f) tempFile fs;
            t1 = [(Create tempFile, fs1)]
        in if err1 \<noteq> None
           then \<lparr>flush_err = err1, kvs_after = kvs, fs_after = fs1, calls = t1\<rparr>
        else
          let (err2, fs2) = json_Encode lib (write_fault f) tempFile (store kvs) fs1;
              t2 = t1 @ [(Write tempFile, fs2)]
          in if err2 \<noteq> None
             then \<lparr>flush_err = err2, kvs_after = kvs, fs_after = fs2,
                    calls = t2 @ [(Close tempFile, fs2)]\<rparr>
          else
            let (err3, fs3) = file_Sync (sync_fault f) fs2;
                t3 = t2 @ [(Sync tempFile, fs3)]
            in if err3 \<noteq> None
               then \<lparr>flush_err = err3, kvs_after = kvs, fs_after = fs3,
                      calls = t3 @ [(Close tempFile, fs3)]\<rparr>
            else
              let (err4, fs4) = file_Close (close_fault f) fs3;
                  t4 = t3 @ [(Close tempFile, fs4)]
              in if err4 \<noteq> None
                 then \<lparr>flush_err = err4, kvs_after = kvs, fs_after = fs4, calls = t4\<rparr>
              else
                let (err5, fs5) = os_Rename (rename_fault f) tempFile dataFile fs4;
                    t5 = t4 @ [(Rename tempFile dataFile, fs5)]
                in if err5 \<noteq> None
                   then \<lparr>flush_err = err5, kvs_after = kvs, fs_after = fs5, calls = t5\<rparr>
                else \<lparr>flush_err = None, kvs_after = kvs\<lparr>dirty := False\<rparr>,
                       fs_after = fs5, calls = t5\<rparr>)"

text \<open>
  The calls of a flush that changed what the snapshot file holds: those that left
  \<open>dataFile\<close> with other contents than it had just before the call, \<open>fs\<close> being the
  disk the flush started on.
\<close>

fun snapshot_writers :: "filesystem \<Rightarrow> (syscall \<times> filesystem) list \<Rightarrow> syscall list" where
  "snapshot_writers fs [] = []"
| "snapshot_writers fs ((c, d) # tr) =
     (if d dataFile \<noteq> fs dataFile then [c] else []) @ snapshot_writers d tr"

section \<open>Startup\<close>

text \<open>
  \<^verbatim>\<open>main\<close> builds the store first; on an error \<^verbatim>\<open>log.Fatalf\<close> ends the process
  with status 1 before anything is served.
\<close>

datatype process = Exited int | Serving KeyValueStore

definition main_startup :: "json_lib \<Rightarrow> load_faults \<Rightarrow> filesystem \<Rightarrow> process" where
  "main_startup lib f fs =
     (case NewKeyValueStore lib f fs of
        Inl err \<Rightarrow> Exited 1
      | Inr kvs \<Rightarrow> Serving kvs)"

section \<open>Request handlers\<close>

text \<open>
  Of a request the handlers use the method, the outcome of reading the body, and the
  query parameters. A response is the content type, the status code and the value that
  \<open>sendJSONResponse\<close> encodes.
\<close>

record request =
  Method :: string
  Body :: "errno + bytes"
  Query :: "string \<rightharpoonup> string"

datatype payload =
    ErrorResponse string
  | GetResponse string string
  | CountResponse int
  | StringMap "(string \<times> string) list"

record response =
  content_type :: string
  status_code :: nat
  payload :: payload

definition StatusOK :: nat where "StatusOK = 200"
definition StatusBadRequest :: nat where "StatusBadRequest = 400"
definition StatusNotFound :: nat where "StatusNotFound = 404"
definition StatusMethodNotAllowed :: nat where "StatusMethodNotAllowed = 405"

definition MethodGet :: string where "MethodGet = ''GET''"
definition MethodPost :: string where "MethodPost = ''POST''"

definition sendJSONResponse :: "payload \<Rightarrow> nat \<Rightarrow> response" where
  "sendJSONResponse d statusCode =
     \<lparr>content_type = ''application/json'', status_code = statusCode, payload = d\<rparr>"

text \<open>\<^verbatim>\<open>r.URL.Query().Get(k)\<close> is the empty string for a missing parameter.\<close>

definition query_Get :: "request \<Rightarrow> string \<Rightarrow> string" where
  "query_Get r k = (case Query r k of None \<Rightarrow> [] | Some v \<Rightarrow> v)"

definition handleSet ::
  "json_lib \<Rightarrow> request \<Rightarrow> KeyValueStore \<Rightarrow> response \<times> KeyValueStore" where
  "handleSet lib r kvs =
     (if Method r \<noteq> MethodPost
      then (sendJSONResponse (ErrorResponse ''Method not allowed'') StatusMethodNotAllowed, kvs)
      else
        case Body r of
          Inl err \<Rightarrow>
            (sendJSONResponse (ErrorResponse ''Error reading request body'') StatusBadRequest, kvs)
        | Inr b \<Rightarrow>
            (case unmarshal_request lib b of
               Inl err \<Rightarrow>
                 (sendJSONResponse (ErrorResponse ''Error parsing JSON'') StatusBadRequest, kvs)
             | Inr req \<Rightarrow>
                 if Key req = []
                 then (sendJSONResponse (ErrorResponse ''Missing key'') StatusBadRequest, kvs)
                 else (sendJSONResponse (StringMap [(''status'', ''OK'')]) StatusOK,
                       Set (Key req) (Value req) kvs)))"

definition handleGet :: "request \<Rightarrow> KeyValueStore \<Rightarrow> response \<times> KeyValueStore" where
  "handleGet r kvs =
     (if Method r \<noteq> MethodGet
      then (sendJSONResponse (ErrorResponse ''Method not allowed'') StatusMethodNotAllowed, kvs)
      else
        let key = query_Get r ''key''
        in if key = []
           then (sendJSONResponse (ErrorResponse ''Missing key'') StatusBadRequest, kvs)
           else
             case Get key kvs of
               (val, ok) \<Rightarrow>
                 if \<not> ok
                 then (sendJSONResponse (ErrorResponse ''Key not found'') StatusNotFound, kvs)
                 else (sendJSONResponse (GetResponse key val) StatusOK, kvs))"

definition handleCount :: "request \<Rightarrow> KeyValueStore \<Rightarrow> response \<times> KeyValueStore" where
  "handleCount r kvs =
     (if Method r \<noteq> MethodGet
      then (sendJSONResponse (ErrorResponse ''Method not allowed'') StatusMethodNotAllowed, kvs)
      else (sendJSONResponse (CountResponse (Count kvs)) StatusOK, kvs))"

section \<open>Operations on the store\<close>

text \<open>
  Every method of \<^verbatim>\<open>KeyValueStore\<close> in \<^verbatim>\<open>main.go\<close>, as one step on the store and
  the disk. What a method returns to its caller is dropped here.
\<close>

datatype operation =
    OpSet string string
  | OpGet string
  | OpCount
  | OpLoadFromDisk load_faults
  | OpSaveToDisk save_faults
  | OpHandleSet request
  | OpHandleGet request
  | OpHandleCount request

fun perform ::
  "json_lib \<Rightarrow> operation \<Rightarrow> KeyValueStore \<times> filesystem \<Rightarrow> KeyValueStore \<times> filesystem" where
  "perform lib (OpSet k v) (kvs, fs) = (Set k v kvs, fs)"
| "perform lib (OpGet k) (kvs, fs) = (kvs, fs)"
| "perform lib OpCount (kvs, fs) = (kvs, fs)"
| "perform lib (OpLoadFromDisk f) (kvs, fs) = (snd (loadFromDisk lib f kvs fs), fs)"
| "perform lib (OpSaveToDisk f) (kvs, fs) =
     (kvs_after (saveToDisk lib f kvs fs), fs_after (saveToDisk lib f kvs fs))"
| "perform lib (OpHandleSet r) (kvs, fs) = (snd (handleSet lib r kvs), fs)"
| "perform lib (OpHandleGet r) (kvs, fs) = (snd (handleGet r kvs), fs)"
| "perform lib (OpHandleCount r) (kvs, fs) = (snd (handleCount r kvs), fs)"

section \<open>Shutdown\<close>

text \<open>
  The two places of \<^verbatim>\<open>main\<close> that end the process, as the sequence of actions each
  performs: the goroutine that waits on the TCP listener, and the tail of \<^verbatim>\<open>main\<close>
  that waits for a signal. \<open>CancelSync\<close> is the call of \<^verbatim>\<open>cancel()\<close>, which makes
  the sync routine run its last \<open>saveToDisk\<close>; \<open>ServerShutdown\<close> is
  \<^verbatim>\<open>server.Shutdown(ctx)\<close>, whose result is an argument. \<^verbatim>\<open>log.Fatalf\<close> logs
  and exits with status 1; \<^verbatim>\<open>os.Exit\<close> runs no deferred call.
\<close>

datatype action =
    Println string
  | LogPrintf string
  | CancelSync
  | ServerShutdown
  | ListenerClose
  | OsExit int

datatype trigger = Signal | TcpConnection

definition gracefulShutdown :: "error option \<Rightarrow> action list" where
  "gracefulShutdown shutdown_err =
     [Println ''Server is shutting down...'', ServerShutdown] @
     (case shutdown_err of
        Some err \<Rightarrow> [LogPrintf ''Server forced to shutdown'', OsExit 1]
      | None \<Rightarrow> [Println ''Server exiting'', OsExit 0])"

definition tcp_shutdown_listener ::
  "error option \<Rightarrow> error option \<Rightarrow> error option \<Rightarrow> action list" where
  "tcp_shutdown_listener listen_err accept_err shutdown_err =
     (case listen_err of
        Some err \<Rightarrow> [LogPrintf ''TCP listener error'', OsExit 1]
      | None \<Rightarrow>
          [Println ''TCP shutdown listener started on port:8081''] @
          (case accept_err of
             Some err \<Rightarrow> [LogPrintf ''TCP accept error'', ListenerClose]
           | None \<Rightarrow>
               [Println ''Shutdown signal received via TCP''] @ gracefulShutdown shutdown_err))"

definition main_on_signal :: "error option \<Rightarrow> action list" where
  "main_on_signal shutdown_err =
     [Println ''Shutdown signal received'', CancelSync] @ gracefulShutdown shutdown_err"

definition shutdown_actions :: "trigger \<Rightarrow> error option \<Rightarrow> action list" where
  "shutdown_actions t shutdown_err =
     (case t of
        Signal \<Rightarrow> main_on_signal shutdown_err
      | TcpConnection \<Rightarrow> tcp_shutdown_listener None None shutdown_err)"

section \<open>A sample library instance\<close>

text \<open>
  An instance of the library parameters for evaluating the model on concrete inputs. It
  knows the texts of one record set and of one request.
\<close>

definition sample_json :: json_lib where
  "sample_json =
     \<lparr>encode_map = (\<lambda>m. if m = [''a'' \<mapsto> ''1''] then ''{a:1}'' else ''{}''),
      decode_map = (\<lambda>b m.
         if b = ''{a:1}'' then (None, m(''a'' \<mapsto> ''1''))
         else if b = ''{}'' then (None, m)
         else (Some (ErrJSON ''invalid character''), m)),
      unmarshal_request = (\<lambda>b.
         if b = ''{key:a,value:1}'' then Inr \<lparr>Key = ''a'', Value = ''1''\<rparr>
         else Inl (ErrJSON ''invalid character''))\<rparr>"

section \<open>Properties of the store\<close>

lemma snd_run_Cons: "snd (run (c # cs) kvs) = snd (run cs (snd (invoke c kvs)))"
  by (simp split: prod.splits)

lemma fst_run_Cons:
  "fst (run (c # cs) kvs) = fst (invoke c kvs) # fst (run cs (snd (invoke c kvs)))"
  by (simp split: prod.splits)

lemma snd_run0_Cons: "snd (run0 (c # cs) kvs) = snd (run0 cs (snd (invoke0 c kvs)))"
  by (simp split: prod.splits)

lemma fst_run0_Cons:
  "fst (run0 (c # cs) kvs) = fst (invoke0 c kvs) # fst (run0 cs (snd (invoke0 c kvs)))"
  by (simp split: prod.splits)







text \<open>The map after a run of \<open>Set\<close> calls: the pairs are added in order, later ones winning.\<close>

lemma run_sets_store:
  "store (snd (run (map (\<lambda>(k, v). CallSet k v) kvl) kvs)) = store kvs ++ map_of (rev kvl)"
proof (induction kvl arbitrary: kvs)
  case Nil
  then show ?case by simp
next
  case (Cons p kvl)
  obtain k v where p: "p = (k, v)" by (cases p)
  have "store (snd (run (map (\<lambda>(k, v). CallSet k v) (p # kvl)) kvs))
      = store (snd (run (map (\<lambda>(k, v). CallSet k v) kvl) (Set k v kvs)))"
    by (simp add: p snd_run_Cons del: run.simps)
  also have "\<dots> = store (Set k v kvs) ++ map_of (rev kvl)"
    by (rule Cons.IH)
  also have "\<dots> = store kvs ++ map_of (rev (p # kvl))"
    by (simp add: p Set_def map_add_upd_left fun_eq_iff map_add_def split: option.splits)
  finally show ?case .
qed

text \<open>
  Claim C7. After \<open>Set\<close> calls on pairwise distinct keys, made on a store created empty,
  \<open>Count\<close> returns the number of keys set.
\<close>

theorem count_distinct_keys:
  "distinct (map fst kvl) \<Longrightarrow>
   Count (snd (run (map (\<lambda>(k, v). CallSet k v) kvl) \<lparr>store = Map.empty, dirty = d\<rparr>))
     = int (length kvl)"
proof -
  assume dist: "distinct (map fst kvl)"
  have "dom (store (snd (run (map (\<lambda>(k, v). CallSet k v) kvl) \<lparr>store = Map.empty, dirty = d\<rparr>)))
      = set (map fst kvl)"
    by (simp add: run_sets_store dom_map_of_conv_image_fst)
  then show ?thesis
    using dist by (simp add: Count_def distinct_card del: set_map)
qed

theorem count_distinct_keys_witness:
  "distinct (map fst [(''a'', ''1''), (''b'', ''''), (''c'', ''1'')])
   \<and> Count (snd (run (map (\<lambda>(k, v). CallSet k v) [(''a'', ''1''), (''b'', ''''), (''c'', ''1'')])
        \<lparr>store = Map.empty, dirty = False\<rparr>)) = 3"
  using count_distinct_keys [of "[(''a'', ''1''), (''b'', ''''), (''c'', ''1'')]" False]
  by simp

text \<open>
  Claim C10. The store methods of \<^verbatim>\<open>main.go\<close> and of \<^verbatim>\<open>part_000\<close> cannot be told
  apart by a caller: started on the same record set, every sequence of \<open>Set\<close>, \<open>Get\<close>
  and \<open>Count\<close> calls returns the same values in both and ends with the same record set.
\<close>

theorem variants_equivalent:
  "store kvs = store0 kvs0 \<Longrightarrow>
   fst (run cs kvs) = fst (run0 cs kvs0) \<and> store (snd (run cs kvs)) = store0 (snd (run0 cs kvs0))"
proof (induction cs arbitrary: kvs kvs0)
  case Nil
  then show ?case by simp
next
  case (Cons c cs)
  obtain r kvs' where i: "invoke c kvs = (r, kvs')" by (cases "invoke c kvs")
  obtain r0 kvs0' where i0: "invoke0 c kvs0 = (r0, kvs0')" by (cases "invoke0 c kvs0")
  have step: "r = r0 \<and> store kvs' = store0 kvs0'"
    using i i0 Cons.prems
    by (cases c) (auto simp: Set_def Set0_def Get_def Get0_def Count_def Count0_def
        split: option.splits)
  with Cons.IH [of kvs' kvs0'] i i0 show ?case
    by (simp add: snd_run_Cons fst_run_Cons snd_run0_Cons fst_run0_Cons
        del: run.simps run0.simps)
qed

theorem variants_equivalent_witness:
  "store \<lparr>store = [''a'' \<mapsto> ''1''], dirty = False\<rparr> = store0 \<lparr>store0 = [''a'' \<mapsto> ''1'']\<rparr>
   \<and> fst (run [CallGet ''a'', CallSet ''b'' ''2'', CallCount, CallGet ''c'']
        \<lparr>store = [''a'' \<mapsto> ''1''], dirty = False\<rparr>)
     = [RetGet ''1'' True, RetUnit, RetCount 2, RetGet [] False]
   \<and> fst (run0 [CallGet ''a'', CallSet ''b'' ''2'', CallCount, CallGet ''c'']
        \<lparr>store0 = [''a'' \<mapsto> ''1'']\<rparr>)
     = [RetGet ''1'' True, RetUnit, RetCount 2, RetGet [] False]
   \<and> store (snd (run [CallGet ''a'', CallSet ''b'' ''2'', CallCount, CallGet ''c'']
        \<lparr>store = [''a'' \<mapsto> ''1''], dirty = False\<rparr>))
     = store0 (snd (run0 [CallGet ''a'', CallSet ''b'' ''2'', CallCount, CallGet ''c'']
        \<lparr>store0 = [''a'' \<mapsto> ''1'']\<rparr>))"
  using variants_equivalent [of "\<lparr>store = [''a'' \<mapsto> ''1''], dirty = False\<rparr>"
      "\<lparr>store0 = [''a'' \<mapsto> ''1'']\<rparr>"
      "[CallGet ''a'', CallSet ''b'' ''2'', CallCount, CallGet ''c'']"]
  by (simp add: Get_def Get0_def Set_def Set0_def Count_def Count0_def)

section \<open>Properties of the flush\<close>

lemma tempFile_neq [simp]: "tempFile \<noteq> dataFile" "dataFile \<noteq> tempFile"
  by (simp_all add: tempFile_def dataFile_def)

text \<open>The outcome of a flush, by the first step that fails.\<close>

lemma saveToDisk_clean:
  "\<not> dirty kvs \<Longrightarrow>
   saveToDisk lib f kvs fs = \<lparr>flush_err = None, kvs_after = kvs, fs_after = fs, calls = []\<rparr>"
  by (simp add: Let_def saveToDisk_def)

lemma saveToDisk_create_fails:
  "dirty kvs \<Longrightarrow> create_fault f = Some e \<Longrightarrow>
   saveToDisk lib f kvs fs =
     \<lparr>flush_err = Some (ErrOS e), kvs_after = kvs, fs_after = fs,
      calls = [(Create tempFile, fs)]\<rparr>"
  by (simp add: Let_def saveToDisk_def os_Create_def)

lemma saveToDisk_write_fails:
  "dirty kvs \<Longrightarrow> create_fault f = None \<Longrightarrow> write_fault f = Some (e, n) \<Longrightarrow>
   saveToDisk lib f kvs fs =
     \<lparr>flush_err = Some (ErrOS e), kvs_after = kvs,
      fs_after = fs(tempFile \<mapsto> take n (encode_map lib (store kvs))),
      calls = [(Create tempFile, fs(tempFile \<mapsto> [])),
               (Write tempFile,
                  fs(tempFile \<mapsto> take n (encode_map lib (store kvs)))),
               (Close tempFile,
                  fs(tempFile \<mapsto> take n (encode_map lib (store kvs))))]\<rparr>"
  by (simp add: Let_def saveToDisk_def os_Create_def json_Encode_def)

lemma saveToDisk_sync_fails:
  "dirty kvs \<Longrightarrow> create_fault f = None \<Longrightarrow> write_fault f = None \<Longrightarrow> sync_fault f = Some e \<Longrightarrow>
   saveToDisk lib f kvs fs =
     \<lparr>flush_err = Some (ErrOS e), kvs_after = kvs,
      fs_after = fs(tempFile \<mapsto> encode_map lib (store kvs)),
      calls = [(Create tempFile, fs(tempFile \<mapsto> [])),
               (Write tempFile, fs(tempFile \<mapsto> encode_map lib (store kvs))),
               (Sync tempFile, fs(tempFile \<mapsto> encode_map lib (store kvs))),
               (Close tempFile, fs(tempFile \<mapsto> encode_map lib (store kvs)))]\<rparr>"
  by (simp add: Let_def saveToDisk_def os_Create_def json_Encode_def file_Sync_def)

lemma saveToDisk_close_fails:
  "dirty kvs \<Longrightarrow> create_fault f = None \<Longrightarrow> write_fault f = None \<Longrightarrow> sync_fault f = None \<Longrightarrow>
   close_fault f = Some e \<Longrightarrow>
   saveToDisk lib f kvs fs =
     \<lparr>flush_err = Some (ErrOS e), kvs_after = kvs,
      fs_after = fs(tempFile \<mapsto> encode_map lib (store kvs)),
      calls = [(Create tempFile, fs(tempFile \<mapsto> [])),
               (Write tempFile, fs(tempFile \<mapsto> encode_map lib (store kvs))),
               (Sync tempFile, fs(tempFile \<mapsto> encode_map lib (store kvs))),
               (Close tempFile, fs(tempFile \<mapsto> encode_map lib (store kvs)))]\<rparr>"
  by (simp add: Let_def saveToDisk_def os_Create_def json_Encode_def file_Sync_def file_Close_def)

lemma saveToDisk_rename_fails:
  "dirty kvs \<Longrightarrow> create_fault f = None \<Longrightarrow> write_fault f = None \<Longrightarrow> sync_fault f = None \<Longrightarrow>
   close_fault f = None \<Longrightarrow> rename_fault f = Some e \<Longrightarrow>
   saveToDisk lib f kvs fs =
     \<lparr>flush_err = Some (ErrOS e), kvs_after = kvs,
      fs_after = fs(tempFile \<mapsto> encode_map lib (store kvs)),
      calls = [(Create tempFile, fs(tempFile \<mapsto> [])),
               (Write tempFile, fs(tempFile \<mapsto> encode_map lib (store kvs))),
               (Sync tempFile, fs(tempFile \<mapsto> encode_map lib (store kvs))),
               (Close tempFile, fs(tempFile \<mapsto> encode_map lib (store kvs))),
               (Rename tempFile dataFile,
                  fs(tempFile \<mapsto> encode_map lib (store kvs)))]\<rparr>"
  by (simp add: Let_def saveToDisk_def os_Create_def json_Encode_def file_Sync_def file_Close_def
      os_Rename_def)

lemma saveToDisk_succeeds:
  "dirty kvs \<Longrightarrow> create_fault f = None \<Longrightarrow> write_fault f = None \<Longrightarrow> sync_fault f = None \<Longrightarrow>
   close_fault f = None \<Longrightarrow> rename_fault f = None \<Longrightarrow>
   saveToDisk lib f kvs fs =
     \<lparr>flush_err = None, kvs_after = kvs\<lparr>dirty := False\<rparr>,
      fs_after = (fs(tempFile := None))(dataFile \<mapsto> encode_map lib (store kvs)),
      calls = [(Create tempFile, fs(tempFile \<mapsto> [])),
               (Write tempFile, fs(tempFile \<mapsto> encode_map lib (store kvs))),
               (Sync tempFile, fs(tempFile \<mapsto> encode_map lib (store kvs))),
               (Close tempFile, fs(tempFile \<mapsto> encode_map lib (store kvs))),
               (Rename tempFile dataFile,
                  (fs(tempFile := None))(dataFile \<mapsto> encode_map lib (store kvs)))]\<rparr>"
  by (simp add: Let_def saveToDisk_def os_Create_def json_Encode_def file_Sync_def file_Close_def
      os_Rename_def)

lemma save_faults_cases:
  obtains
    (create_case) e where "create_fault f = Some e"
  | (write_case) e n where "create_fault f = None" "write_fault f = Some (e, n)"
  | (sync_case) e where "create_fault f = None" "write_fault f = None" "sync_fault f = Some e"
  | (close_case) e where "create_fault f = None" "write_fault f = None" "sync_fault f = None"
      "close_fault f = Some e"
  | (rename_case) e where "create_fault f = None" "write_fault f = None" "sync_fault f = None"
      "close_fault f = None" "rename_fault f = Some e"
  | (none_case) "create_fault f = None" "write_fault f = None" "sync_fault f = None"
      "close_fault f = None" "rename_fault f = None"
proof (cases "create_fault f")
  case (Some e)
  then show ?thesis by (rule create_case)
next
  case c: None
  show ?thesis
  proof (cases "write_fault f")
    case (Some p)
    with c show ?thesis by (cases p) (auto intro: write_case)
  next
    case w: None
    show ?thesis
    proof (cases "sync_fault f")
      case (Some e)
      with c w show ?thesis by (auto intro: sync_case)
    next
      case s: None
      show ?thesis
      proof (cases "close_fault f")
        case (Some e)
        with c w s show ?thesis by (auto intro: close_case)
      next
        case cl: None
        with c w s show ?thesis
          by (cases "rename_fault f") (auto intro: rename_case none_case)
      qed
    qed
  qed
qed

text \<open>
  Claim C2. A flush of a dirty store changes the snapshot file at the rename and nowhere
  else: \<open>Rename\<close> is the only call after which \<open>dataFile\<close> holds other contents
  than before it. After every call of the flush, and at its end, the file holds either
  what it held when the flush began or the whole encoded record set. When creating,
  writing, syncing, closing or renaming the temporary file fails, that error is
  returned, the store is unchanged with its dirty flag still set, and the snapshot file
  holds what it held before, after every call made.
\<close>

theorem flush_atomic:
  assumes d: "dirty kvs"
  shows
  "(let r = saveToDisk lib f kvs fs; new = Some (encode_map lib (store kvs)) in
      set (snapshot_writers fs (calls r)) \<subseteq> {Rename tempFile dataFile}
    \<and> (\<forall>cd \<in> set (calls r). snd cd dataFile = fs dataFile \<or> snd cd dataFile = new)
    \<and> (fs_after r dataFile = fs dataFile \<or> fs_after r dataFile = new)
    \<and> (flush_err r = None \<longrightarrow> fs_after r dataFile = new)
    \<and> (flush_err r \<noteq> None \<longrightarrow>
          kvs_after r = kvs \<and> dirty (kvs_after r) \<and> fs_after r dataFile = fs dataFile
          \<and> snapshot_writers fs (calls r) = []
          \<and> (\<forall>cd \<in> set (calls r). snd cd dataFile = fs dataFile))
    \<and> (\<forall>e. create_fault f = Some e \<longrightarrow> flush_err r = Some (ErrOS e))
    \<and> (\<forall>e n. create_fault f = None \<and> write_fault f = Some (e, n) \<longrightarrow>
          flush_err r = Some (ErrOS e))
    \<and> (\<forall>e. create_fault f = None \<and> write_fault f = None \<and> sync_fault f = Some e \<longrightarrow>
          flush_err r = Some (ErrOS e))
    \<and> (\<forall>e. create_fault f = None \<and> write_fault f = None \<and> sync_fault f = None
            \<and> close_fault f = Some e \<longrightarrow> flush_err r = Some (ErrOS e))
    \<and> (\<forall>e. create_fault f = None \<and> write_fault f = None \<and> sync_fault f = None
            \<and> close_fault f = None \<and> rename_fault f = Some e \<longrightarrow>
          flush_err r = Some (ErrOS e)))"
proof -
  show ?thesis
  proof (cases f rule: save_faults_cases)
    case (create_case e)
    then show ?thesis using d by (simp add: saveToDisk_create_fails [OF d])
  next
    case (write_case e n)
    then show ?thesis using d by (simp add: saveToDisk_write_fails [OF d])
  next
    case (sync_case e)
    then show ?thesis using d by (simp add: saveToDisk_sync_fails [OF d])
  next
    case (close_case e)
    then show ?thesis using d by (simp add: saveToDisk_close_fails [OF d])
  next
    case (rename_case e)
    then show ?thesis using d by (simp add: saveToDisk_rename_fails [OF d])
  next
    case none_case
    then show ?thesis using d by (auto simp: saveToDisk_succeeds [OF d])
  qed
qed

theorem flush_atomic_witness:
  "dirty \<lparr>store = [''a'' \<mapsto> ''1''], dirty = True\<rparr>
   \<and> flush_err (saveToDisk sample_json
        \<lparr>create_fault = None, write_fault = None, sync_fault = None, close_fault = None,
         rename_fault = Some EIO\<rparr>
        \<lparr>store = [''a'' \<mapsto> ''1''], dirty = True\<rparr> [dataFile \<mapsto> ''{}'']) = Some (ErrOS EIO)
   \<and> fs_after (saveToDisk sample_json
        \<lparr>create_fault = None, write_fault = None, sync_fault = None, close_fault = None,
         rename_fault = Some EIO\<rparr>
        \<lparr>store = [''a'' \<mapsto> ''1''], dirty = True\<rparr> [dataFile \<mapsto> ''{}'']) dataFile = Some ''{}''
   \<and> dirty (kvs_after (saveToDisk sample_json
        \<lparr>create_fault = None, write_fault = None, sync_fault = None, close_fault = None,
         rename_fault = Some EIO\<rparr>
        \<lparr>store = [''a'' \<mapsto> ''1''], dirty = True\<rparr> [dataFile \<mapsto> ''{}'']))"
  using flush_atomic [of "\<lparr>store = [''a'' \<mapsto> ''1''], dirty = True\<rparr>" sample_json
      "\<lparr>create_fault = None, write_fault = None, sync_fault = None, close_fault = None,
        rename_fault = Some EIO\<rparr>" "[dataFile \<mapsto> ''{}'']"]
  by (simp add: Let_def)

lemma loadFromDisk_dirty: "dirty (snd (loadFromDisk lib f kvs fs)) = dirty kvs"
  by (simp add: loadFromDisk_def split: sum.splits prod.splits)

lemma handleSet_dirty: "dirty kvs \<Longrightarrow> dirty (snd (handleSet lib r kvs))"
  by (simp add: handleSet_def Set_def split: sum.splits)

lemma handleGet_state: "snd (handleGet r kvs) = kvs"
  by (simp add: handleGet_def Let_def split: prod.splits)

lemma handleCount_state: "snd (handleCount r kvs) = kvs"
  by (simp add: handleCount_def)

lemma saveToDisk_clears_only_on_success:
  assumes d: "dirty kvs" and c: "\<not> dirty (kvs_after (saveToDisk lib f kvs fs))"
  shows "create_fault f = None \<and> write_fault f = None \<and> sync_fault f = None
    \<and> close_fault f = None \<and> rename_fault f = None"
proof (cases f rule: save_faults_cases)
  case (create_case e)
  with c d show ?thesis by (simp add: saveToDisk_create_fails [OF d])
next
  case (write_case e n)
  with c d show ?thesis by (simp add: saveToDisk_write_fails [OF d])
next
  case (sync_case e)
  with c d show ?thesis by (simp add: saveToDisk_sync_fails [OF d])
next
  case (close_case e)
  with c d show ?thesis by (simp add: saveToDisk_close_fails [OF d])
next
  case (rename_case e)
  with c d show ?thesis by (simp add: saveToDisk_rename_fails [OF d])
next
  case none_case
  then show ?thesis by simp
qed

text \<open>
  Claim C3. \<open>Set\<close> sets the dirty flag, and so does a request that \<open>handleSet\<close>
  answers with 200. Of all operations on the store only a flush takes a set flag back:
  if the flag is set before an operation and clear after it, the operation is a
  \<open>saveToDisk\<close> in which no step failed; it returned no error, its last call was the
  rename, and the snapshot file holds the encoded record set.
\<close>

theorem dirty_flag_invariant:
  "dirty (Set k v kvs)
   \<and> (status_code (fst (handleSet lib r kvs)) = 200 \<longrightarrow> dirty (snd (handleSet lib r kvs)))
   \<and> (dirty kvs \<and> \<not> dirty (fst (perform lib op (kvs, fs))) \<longrightarrow>
        (\<exists>f. op = OpSaveToDisk f
          \<and> create_fault f = None \<and> write_fault f = None \<and> sync_fault f = None
          \<and> close_fault f = None \<and> rename_fault f = None
          \<and> flush_err (saveToDisk lib f kvs fs) = None
          \<and> fst (last (calls (saveToDisk lib f kvs fs))) = Rename tempFile dataFile
          \<and> fs_after (saveToDisk lib f kvs fs) dataFile = Some (encode_map lib (store kvs))))"
proof (intro conjI impI)
  show "dirty (Set k v kvs)"
    by (simp add: Set_def)
next
  assume "status_code (fst (handleSet lib r kvs)) = 200"
  then show "dirty (snd (handleSet lib r kvs))"
    by (auto simp: handleSet_def sendJSONResponse_def Set_def StatusMethodNotAllowed_def
        StatusBadRequest_def StatusOK_def split: if_splits sum.splits)
next
  assume a: "dirty kvs \<and> \<not> dirty (fst (perform lib op (kvs, fs)))"
  then have d: "dirty kvs" and c: "\<not> dirty (fst (perform lib op (kvs, fs)))" by simp_all
  show "\<exists>f. op = OpSaveToDisk f
          \<and> create_fault f = None \<and> write_fault f = None \<and> sync_fault f = None
          \<and> close_fault f = None \<and> rename_fault f = None
          \<and> flush_err (saveToDisk lib f kvs fs) = None
          \<and> fst (last (calls (saveToDisk lib f kvs fs))) = Rename tempFile dataFile
          \<and> fs_after (saveToDisk lib f kvs fs) dataFile = Some (encode_map lib (store kvs))"
  proof (cases op)
    case (OpSet k' v')
    with c show ?thesis by (simp add: Set_def)
  next
    case (OpGet k')
    with c d show ?thesis by simp
  next
    case OpCount
    with c d show ?thesis by simp
  next
    case (OpLoadFromDisk lf)
    with c d show ?thesis by (simp add: loadFromDisk_dirty)
  next
    case (OpSaveToDisk f)
    with c have c': "\<not> dirty (kvs_after (saveToDisk lib f kvs fs))" by simp
    have nf: "create_fault f = None \<and> write_fault f = None \<and> sync_fault f = None
      \<and> close_fault f = None \<and> rename_fault f = None"
      by (rule saveToDisk_clears_only_on_success [OF d c'])
    then show ?thesis
      using OpSaveToDisk by (simp add: saveToDisk_succeeds [OF d])
  next
    case (OpHandleSet rq)
    with c d show ?thesis by (simp add: handleSet_dirty)
  next
    case (OpHandleGet rq)
    with c d show ?thesis by (simp add: handleGet_state)
  next
    case (OpHandleCount rq)
    with c d show ?thesis by (simp add: handleCount_state)
  qed
qed

theorem dirty_flag_invariant_witness:
  "dirty \<lparr>store = [''a'' \<mapsto> ''1''], dirty = True\<rparr>
   \<and> \<not> dirty (fst (perform sample_json (OpSaveToDisk no_save_faults)
         (\<lparr>store = [''a'' \<mapsto> ''1''], dirty = True\<rparr>, Map.empty)))
   \<and> flush_err (saveToDisk sample_json no_save_faults
         \<lparr>store = [''a'' \<mapsto> ''1''], dirty = True\<rparr> Map.empty) = None
   \<and> fs_after (saveToDisk sample_json no_save_faults
         \<lparr>store = [''a'' \<mapsto> ''1''], dirty = True\<rparr> Map.empty) dataFile = Some ''{a:1}''"
proof -
  have d: "dirty \<lparr>store = [''a'' \<mapsto> ''1''], dirty = True\<rparr>" by simp
  have c: "\<not> dirty (fst (perform sample_json (OpSaveToDisk no_save_faults)
         (\<lparr>store = [''a'' \<mapsto> ''1''], dirty = True\<rparr>, Map.empty)))"
    by (simp add: saveToDisk_succeeds no_save_faults_def)
  from d c dirty_flag_invariant [of "''a''" "''1''" "\<lparr>store = [''a'' \<mapsto> ''1''], dirty = True\<rparr>"
      sample_json "\<lparr>Method = ''GET'', Body = Inr [], Query = Map.empty\<rparr>"
      "OpSaveToDisk no_save_faults" Map.empty]
  show ?thesis
    by (simp add: sample_json_def)
qed

section \<open>Properties of startup\<close>

text \<open>The outcome of \<open>NewKeyValueStore\<close>, by what opening and decoding the file yield.\<close>

lemma NewKeyValueStore_absent:
  "open_fault f = None \<Longrightarrow> fs dataFile = None \<Longrightarrow>
   NewKeyValueStore lib f fs = Inr \<lparr>store = Map.empty, dirty = False\<rparr>"
  by (simp add: NewKeyValueStore_def loadFromDisk_def os_Open_def os_IsNotExist_def)

lemma NewKeyValueStore_open_fails:
  "open_fault f = Some e \<Longrightarrow> NewKeyValueStore lib f fs = Inl (ErrOS e)"
  by (simp add: NewKeyValueStore_def loadFromDisk_def os_Open_def os_IsNotExist_def)

lemma NewKeyValueStore_read_fails:
  "open_fault f = None \<Longrightarrow> fs dataFile = Some b \<Longrightarrow> read_fault f = Some e \<Longrightarrow>
   NewKeyValueStore lib f fs = Inl (ErrOS e)"
  by (simp add: NewKeyValueStore_def loadFromDisk_def os_Open_def json_Decode_def)

lemma NewKeyValueStore_decode_fails:
  "open_fault f = None \<Longrightarrow> fs dataFile = Some b \<Longrightarrow> read_fault f = None \<Longrightarrow>
   decode_map lib b Map.empty = (Some err, m) \<Longrightarrow>
   NewKeyValueStore lib f fs = Inl err"
  by (simp add: NewKeyValueStore_def loadFromDisk_def os_Open_def json_Decode_def)

lemma NewKeyValueStore_decodes:
  "open_fault f = None \<Longrightarrow> fs dataFile = Some b \<Longrightarrow> read_fault f = None \<Longrightarrow>
   decode_map lib b Map.empty = (None, m) \<Longrightarrow>
   NewKeyValueStore lib f fs = Inr \<lparr>store = m, dirty = False\<rparr>"
  by (simp add: NewKeyValueStore_def loadFromDisk_def os_Open_def json_Decode_def)

text \<open>
  Claim C8. At startup the store is loaded from the snapshot file. With no file there,
  the store starts with the empty record set and the process serves. With a file that
  opens, reads and decodes, the record set is what the decoder makes of the file's text.
  Every other outcome is an error of \<open>NewKeyValueStore\<close>, on which \<open>main\<close> exits
  with status 1: a failure to open the file other than its absence, a failure to read
  it, and a text the decoder rejects.
\<close>

theorem load_at_startup:
  "(open_fault f = None \<and> fs dataFile = None \<longrightarrow>
      NewKeyValueStore lib f fs = Inr \<lparr>store = Map.empty, dirty = False\<rparr>
      \<and> main_startup lib f fs = Serving \<lparr>store = Map.empty, dirty = False\<rparr>)
   \<and> (open_fault f = None \<and> fs dataFile = Some b \<and> read_fault f = None
        \<and> decode_map lib b Map.empty = (None, m) \<longrightarrow>
      NewKeyValueStore lib f fs = Inr \<lparr>store = m, dirty = False\<rparr>
      \<and> main_startup lib f fs = Serving \<lparr>store = m, dirty = False\<rparr>)
   \<and> (open_fault f = Some e \<longrightarrow>
      NewKeyValueStore lib f fs = Inl (ErrOS e) \<and> main_startup lib f fs = Exited 1)
   \<and> (open_fault f = None \<and> fs dataFile = Some b \<and> read_fault f = Some e \<longrightarrow>
      NewKeyValueStore lib f fs = Inl (ErrOS e) \<and> main_startup lib f fs = Exited 1)
   \<and> (open_fault f = None \<and> fs dataFile = Some b \<and> read_fault f = None
        \<and> decode_map lib b Map.empty = (Some err, m) \<longrightarrow>
      NewKeyValueStore lib f fs = Inl err \<and> main_startup lib f fs = Exited 1)"
  by (simp add: main_startup_def NewKeyValueStore_absent NewKeyValueStore_open_fails
      NewKeyValueStore_read_fails NewKeyValueStore_decode_fails NewKeyValueStore_decodes)

theorem load_at_startup_witness:
  "open_fault no_load_faults = None \<and> read_fault no_load_faults = None
   \<and> (Map.empty :: filesystem) dataFile = None
   \<and> main_startup sample_json no_load_faults Map.empty
       = Serving \<lparr>store = Map.empty, dirty = False\<rparr>
   \<and> [dataFile \<mapsto> ''{a:1}''] dataFile = Some ''{a:1}''
   \<and> decode_map sample_json ''{a:1}'' Map.empty = (None, [''a'' \<mapsto> ''1''])
   \<and> main_startup sample_json no_load_faults [dataFile \<mapsto> ''{a:1}'']
       = Serving \<lparr>store = [''a'' \<mapsto> ''1''], dirty = False\<rparr>
   \<and> open_fault \<lparr>open_fault = Some EACCES, read_fault = None\<rparr> = Some EACCES
   \<and> main_startup sample_json \<lparr>open_fault = Some EACCES, read_fault = None\<rparr>
        [dataFile \<mapsto> ''{a:1}''] = Exited 1
   \<and> read_fault \<lparr>open_fault = None, read_fault = Some EIO\<rparr> = Some EIO
   \<and> main_startup sample_json \<lparr>open_fault = None, read_fault = Some EIO\<rparr>
        [dataFile \<mapsto> ''{a:1}''] = Exited 1
   \<and> [dataFile \<mapsto> ''{a:''] dataFile = Some ''{a:''
   \<and> decode_map sample_json ''{a:'' Map.empty
       = (Some (ErrJSON ''invalid character''), Map.empty)
   \<and> main_startup sample_json no_load_faults [dataFile \<mapsto> ''{a:''] = Exited 1"
  using load_at_startup [of no_load_faults Map.empty sample_json "[]" Map.empty EIO
      "ErrJSON []"]
    load_at_startup [of no_load_faults "[dataFile \<mapsto> ''{a:1}'']" sample_json "''{a:1}''"
      "[''a'' \<mapsto> ''1'']" EIO "ErrJSON []"]
    load_at_startup [of "\<lparr>open_fault = Some EACCES, read_fault = None\<rparr>"
      "[dataFile \<mapsto> ''{a:1}'']" sample_json "''{a:1}''" Map.empty EACCES "ErrJSON []"]
    load_at_startup [of "\<lparr>open_fault = None, read_fault = Some EIO\<rparr>"
      "[dataFile \<mapsto> ''{a:1}'']" sample_json "''{a:1}''" Map.empty EIO "ErrJSON []"]
    load_at_startup [of no_load_faults "[dataFile \<mapsto> ''{a:'']" sample_json "''{a:''"
      Map.empty EIO "ErrJSON ''invalid character''"]
  by (simp add: no_load_faults_def sample_json_def)

section \<open>Properties of the request handlers\<close>



section \<open>Repeated flushes and the round trip\<close>

text \<open>
  Claim C5, as amended. A flush of a store that is not dirty returns success at once,
  makes no system call and changes neither the store nor the disk. Hence after a flush
  that returned success, a second flush with no write in between is such a no-op. (A
  flush that failed leaves the flag set, and the next flush does the I/O again.)
\<close>

theorem flush_noop_when_clean:
  "(\<not> dirty kvs \<longrightarrow>
      saveToDisk lib f kvs fs = \<lparr>flush_err = None, kvs_after = kvs, fs_after = fs, calls = []\<rparr>)
   \<and> (flush_err (saveToDisk lib f kvs fs) = None \<longrightarrow>
      saveToDisk lib f' (kvs_after (saveToDisk lib f kvs fs)) (fs_after (saveToDisk lib f kvs fs))
        = \<lparr>flush_err = None, kvs_after = kvs_after (saveToDisk lib f kvs fs),
           fs_after = fs_after (saveToDisk lib f kvs fs), calls = []\<rparr>)"
proof (intro conjI impI)
  assume "\<not> dirty kvs"
  then show "saveToDisk lib f kvs fs
      = \<lparr>flush_err = None, kvs_after = kvs, fs_after = fs, calls = []\<rparr>"
    by (rule saveToDisk_clean)
next
  assume ok: "flush_err (saveToDisk lib f kvs fs) = None"
  have "\<not> dirty (kvs_after (saveToDisk lib f kvs fs))"
  proof (cases "dirty kvs")
    case False
    then show ?thesis by (simp add: saveToDisk_clean)
  next
    case d: True
    show ?thesis
    proof (cases f rule: save_faults_cases)
      case (create_case e)
      with ok show ?thesis by (simp add: saveToDisk_create_fails [OF d])
    next
      case (write_case e n)
      with ok show ?thesis by (simp add: saveToDisk_write_fails [OF d])
    next
      case (sync_case e)
      with ok show ?thesis by (simp add: saveToDisk_sync_fails [OF d])
    next
      case (close_case e)
      with ok show ?thesis by (simp add: saveToDisk_close_fails [OF d])
    next
      case (rename_case e)
      with ok show ?thesis by (simp add: saveToDisk_rename_fails [OF d])
    next
      case none_case
      then show ?thesis by (simp add: saveToDisk_succeeds [OF d])
    qed
  qed
  then show "saveToDisk lib f' (kvs_after (saveToDisk lib f kvs fs))
        (fs_after (saveToDisk lib f kvs fs))
      = \<lparr>flush_err = None, kvs_after = kvs_after (saveToDisk lib f kvs fs),
         fs_after = fs_after (saveToDisk lib f kvs fs), calls = []\<rparr>"
    by (rule saveToDisk_clean)
qed

theorem flush_noop_when_clean_witness:
  "flush_err (saveToDisk sample_json no_save_faults
       \<lparr>store = [''a'' \<mapsto> ''1''], dirty = True\<rparr> Map.empty) = None
   \<and> map fst (calls (saveToDisk sample_json no_save_faults
       \<lparr>store = [''a'' \<mapsto> ''1''], dirty = True\<rparr> Map.empty))
       = [Create tempFile, Write tempFile, Sync tempFile, Close tempFile,
          Rename tempFile dataFile]
   \<and> calls (saveToDisk sample_json no_save_faults
       (kvs_after (saveToDisk sample_json no_save_faults
          \<lparr>store = [''a'' \<mapsto> ''1''], dirty = True\<rparr> Map.empty))
       (fs_after (saveToDisk sample_json no_save_faults
          \<lparr>store = [''a'' \<mapsto> ''1''], dirty = True\<rparr> Map.empty))) = []
   \<and> \<not> dirty \<lparr>store = Map.empty, dirty = False\<rparr>
   \<and> calls (saveToDisk sample_json no_save_faults \<lparr>store = Map.empty, dirty = False\<rparr>
        Map.empty) = []"
proof -
  have ok: "flush_err (saveToDisk sample_json no_save_faults
       \<lparr>store = [''a'' \<mapsto> ''1''], dirty = True\<rparr> Map.empty) = None"
    by (simp add: saveToDisk_succeeds no_save_faults_def)
  have tr: "map fst (calls (saveToDisk sample_json no_save_faults
       \<lparr>store = [''a'' \<mapsto> ''1''], dirty = True\<rparr> Map.empty))
       = [Create tempFile, Write tempFile, Sync tempFile, Close tempFile,
          Rename tempFile dataFile]"
    by (simp add: saveToDisk_succeeds no_save_faults_def)
  from ok tr
    flush_noop_when_clean [of "\<lparr>store = [''a'' \<mapsto> ''1''], dirty = True\<rparr>" sample_json
      no_save_faults Map.empty no_save_faults]
    flush_noop_when_clean [of "\<lparr>store = Map.empty, dirty = False\<rparr>" sample_json
      no_save_faults Map.empty no_save_faults]
  show ?thesis by simp
qed

text \<open>
  Claim C5 as stated fails where the first flush fails: here the disk is full after two
  bytes, the first flush creates, writes and closes the temporary file and returns the
  error, and the second flush, with no write to the store in between, goes through all
  five system calls.
\<close>

theorem flush_twice_counterexample:
  "map fst (calls (saveToDisk sample_json
       \<lparr>create_fault = None, write_fault = Some (ENOSPC, 2), sync_fault = None,
        close_fault = None, rename_fault = None\<rparr>
       \<lparr>store = [''a'' \<mapsto> ''1''], dirty = True\<rparr> Map.empty))
     = [Create tempFile, Write tempFile, Close tempFile]
   \<and> map fst (calls (saveToDisk sample_json no_save_faults
       (kvs_after (saveToDisk sample_json
          \<lparr>create_fault = None, write_fault = Some (ENOSPC, 2), sync_fault = None,
           close_fault = None, rename_fault = None\<rparr>
          \<lparr>store = [''a'' \<mapsto> ''1''], dirty = True\<rparr> Map.empty))
       (fs_after (saveToDisk sample_json
          \<lparr>create_fault = None, write_fault = Some (ENOSPC, 2), sync_fault = None,
           close_fault = None, rename_fault = None\<rparr>
          \<lparr>store = [''a'' \<mapsto> ''1''], dirty = True\<rparr> Map.empty))))
     = [Create tempFile, Write tempFile, Sync tempFile, Close tempFile,
        Rename tempFile dataFile]"
  by (simp add: saveToDisk_write_fails saveToDisk_succeeds no_save_faults_def)

text \<open>
  A store that is not dirty has its record set in the snapshot file: loading the file
  yields that record set. This holds for the store that \<open>NewKeyValueStore\<close> returns and
  is kept by every flush whose encoded text decodes to the record set written; \<open>Set\<close>
  makes the store dirty.
\<close>

lemma startup_snapshot_current:
  assumes "NewKeyValueStore lib f fs = Inr kvs"
  shows "NewKeyValueStore lib no_load_faults fs = Inr \<lparr>store = store kvs, dirty = False\<rparr>"
proof (cases "open_fault f")
  case (Some e)
  with assms show ?thesis by (simp add: NewKeyValueStore_open_fails)
next
  case o: None
  show ?thesis
  proof (cases "fs dataFile")
    case None
    with o assms show ?thesis
      by (auto simp: NewKeyValueStore_absent no_load_faults_def)
  next
    case (Some b)
    show ?thesis
    proof (cases "read_fault f")
      case (Some e)
      with o \<open>fs dataFile = Some b\<close> assms show ?thesis
        by (simp add: NewKeyValueStore_read_fails)
    next
      case r: None
      obtain err m where dm: "decode_map lib b Map.empty = (err, m)"
        by (cases "decode_map lib b Map.empty")
      show ?thesis
      proof (cases err)
        case None
        with o r dm \<open>fs dataFile = Some b\<close> assms show ?thesis
          by (auto simp: NewKeyValueStore_decodes no_load_faults_def)
      next
        case (Some e)
        with o r dm \<open>fs dataFile = Some b\<close> assms show ?thesis
          by (simp add: NewKeyValueStore_decode_fails)
      qed
    qed
  qed
qed


lemma flush_keeps_snapshot_current:
  assumes lossless: "dirty kvs \<longrightarrow>
      decode_map lib (encode_map lib (store kvs)) Map.empty = (None, store kvs)"
    and current: "\<not> dirty kvs \<longrightarrow>
      NewKeyValueStore lib no_load_faults fs = Inr \<lparr>store = store kvs, dirty = False\<rparr>"
    and clean: "\<not> dirty (kvs_after (saveToDisk lib f kvs fs))"
  shows "NewKeyValueStore lib no_load_faults (fs_after (saveToDisk lib f kvs fs))
      = Inr \<lparr>store = store (kvs_after (saveToDisk lib f kvs fs)), dirty = False\<rparr>"
proof (cases "dirty kvs")
  case False
  with current show ?thesis by (simp add: saveToDisk_clean)
next
  case True
  have "create_fault f = None \<and> write_fault f = None \<and> sync_fault f = None
      \<and> close_fault f = None \<and> rename_fault f = None"
    by (rule saveToDisk_clears_only_on_success [OF True clean])
  with lossless True show ?thesis
    by (simp add: saveToDisk_succeeds [OF True] NewKeyValueStore_decodes no_load_faults_def)
qed



section \<open>Shutdown order\<close>

text \<open>
  Claim C1 asks that every shutdown, by signal or by a connection on the TCP listener,
  cancels the sync routine before the server is stopped and the process exits. The
  signal path does so. The TCP path goes from the accepted connection straight to
  \<open>gracefulShutdown\<close>: the server is shut down and the process exits with status 0, and
  \<open>cancel\<close> is never called, so the sync routine does not run its last flush.
\<close>

theorem tcp_shutdown_skips_cancel:
  "shutdown_actions TcpConnection None =
     [Println ''TCP shutdown listener started on port:8081'',
      Println ''Shutdown signal received via TCP'',
      Println ''Server is shutting down...'', ServerShutdown,
      Println ''Server exiting'', OsExit 0]
   \<and> CancelSync \<notin> set (shutdown_actions TcpConnection None)
   \<and> shutdown_actions Signal None =
     [Println ''Shutdown signal received'', CancelSync,
      Println ''Server is shutting down...'', ServerShutdown,
      Println ''Server exiting'', OsExit 0]"
  by (simp add: shutdown_actions_def tcp_shutdown_listener_def main_on_signal_def
      gracefulShutdown_def)

end
